theory Spec2Isabelle
  imports Complex_Main
begin

section \<open>The boss attack controller (BossAttackController.jsx)\<close>

text \<open>
  A shallow embedding of the attack catalogue, the three utility functions
  (\<open>getAttacksForBoss\<close>, \<open>selectRandomAttack\<close>, \<open>calculateNextAttackDelay\<close>) and the hook
  \<open>useBossAttackController\<close>.

  JavaScript numbers are modelled as reals, and the places where the source can produce
  \<open>undefined\<close>, \<open>NaN\<close> or an infinity are written out. Health, damage, durations and
  delays are computed without rounding; the arithmetic of \<open>selectRandomAttack\<close>, whose
  rounding decides which attack is returned, is the rounded arithmetic of IEEE 754 doubles.
  Every result of \<open>Math.random()\<close> is a parameter \<open>u\<close> of the function that draws it.
\<close>

subsection \<open>Constants and the attack catalogue\<close>

definition BASE_HP :: real where "BASE_HP = 1000"
definition DAMAGE_FLASH_DURATION :: real where "DAMAGE_FLASH_DURATION = 150"
definition ATTACK_INTERVAL_MIN :: real where "ATTACK_INTERVAL_MIN = 3000"
definition ATTACK_INTERVAL_MAX :: real where "ATTACK_INTERVAL_MAX = 6000"

datatype phase = IDLE | TELEGRAPH | EXECUTING | RECOVERY

text \<open>
  An attack definition. The fields \<open>id\<close>, \<open>name\<close> and \<open>type\<close> of the source carry the prefix
  \<open>attack_\<close> here; \<open>bossLevel\<close> is absent (\<open>None\<close>) in a common attack.
\<close>

record attack =
  attack_id :: string
  attack_name :: string
  attack_type :: string
  bossLevel :: "real option"
  damage :: real
  telegraphDuration :: real
  executeDuration :: real
  recoveryDuration :: real
  dangerZone :: string
  indicator :: string
  sound :: string
  evasionDirection :: string
  description :: string

definition SWEEPING_LASER :: attack where
  "SWEEPING_LASER = \<lparr> attack_id = ''sweeping_laser'', attack_name = ''Sweeping Laser'',
     attack_type = ''common'', bossLevel = None, damage = 25,
     telegraphDuration = 1200, executeDuration = 1800, recoveryDuration = 800,
     dangerZone = ''horizontal_sweep'', indicator = ''laser_charge'', sound = ''laser_charge'',
     evasionDirection = ''vertical'',
     description = ''A horizontal laser that sweeps across the arena'' \<rparr>"

definition MISSILE_BARRAGE :: attack where
  "MISSILE_BARRAGE = \<lparr> attack_id = ''missile_barrage'', attack_name = ''Missile Barrage'',
     attack_type = ''common'', bossLevel = None, damage = 15,
     telegraphDuration = 1500, executeDuration = 2500, recoveryDuration = 1000,
     dangerZone = ''tracking_missiles'', indicator = ''lock_on'', sound = ''missile_lock'',
     evasionDirection = ''barrel_roll'',
     description = ''Multiple tracking missiles that require barrel roll to evade'' \<rparr>"

definition STOMP_SHOCKWAVE :: attack where
  "STOMP_SHOCKWAVE = \<lparr> attack_id = ''stomp_shockwave'', attack_name = ''Seismic Stomp'',
     attack_type = ''unique'', bossLevel = Some 1, damage = 40,
     telegraphDuration = 1800, executeDuration = 1200, recoveryDuration = 1500,
     dangerZone = ''ground_ring'', indicator = ''leg_raise'', sound = ''mechanical_charge'',
     evasionDirection = ''up'',
     description = ''Boss raises leg and slams down creating a ground shockwave'' \<rparr>"

definition DEBRIS_STORM :: attack where
  "DEBRIS_STORM = \<lparr> attack_id = ''debris_storm'', attack_name = ''Debris Storm'',
     attack_type = ''unique'', bossLevel = Some 2, damage = 20,
     telegraphDuration = 2000, executeDuration = 3000, recoveryDuration = 800,
     dangerZone = ''scattered_zones'', indicator = ''asteroid_gather'', sound = ''rumble'',
     evasionDirection = ''weave'',
     description = ''Boss pulls in asteroids and hurls them at player'' \<rparr>"

definition CRYO_BLAST :: attack where
  "CRYO_BLAST = \<lparr> attack_id = ''cryo_blast'', attack_name = ''Cryo Blast'',
     attack_type = ''unique'', bossLevel = Some 3, damage = 35,
     telegraphDuration = 1400, executeDuration = 1600, recoveryDuration = 1200,
     dangerZone = ''cone_forward'', indicator = ''frost_buildup'', sound = ''ice_charge'',
     evasionDirection = ''horizontal'',
     description = ''Boss charges and releases a freezing cone attack'' \<rparr>"

definition SOLAR_FLARE :: attack where
  "SOLAR_FLARE = \<lparr> attack_id = ''solar_flare'', attack_name = ''Solar Flare'',
     attack_type = ''unique'', bossLevel = Some 4, damage = 50,
     telegraphDuration = 2200, executeDuration = 1000, recoveryDuration = 2000,
     dangerZone = ''full_arena_flash'', indicator = ''heat_buildup'', sound = ''plasma_charge'',
     evasionDirection = ''barrel_roll'',
     description = ''Massive arena-wide blast requiring perfect timing'' \<rparr>"

definition TOXIC_SPRAY :: attack where
  "TOXIC_SPRAY = \<lparr> attack_id = ''toxic_spray'', attack_name = ''Toxic Spray'',
     attack_type = ''unique'', bossLevel = Some 5, damage = 30,
     telegraphDuration = 1600, executeDuration = 2200, recoveryDuration = 900,
     dangerZone = ''spreading_cloud'', indicator = ''gas_buildup'', sound = ''hiss'',
     evasionDirection = ''retreat'',
     description = ''Boss releases expanding toxic cloud'' \<rparr>"

definition SYSTEM_CORRUPTION :: attack where
  "SYSTEM_CORRUPTION = \<lparr> attack_id = ''system_corruption'', attack_name = ''System Corruption'',
     attack_type = ''unique'', bossLevel = Some 6, damage = 45,
     telegraphDuration = 1000, executeDuration = 2800, recoveryDuration = 1100,
     dangerZone = ''glitch_zones'', indicator = ''static_interference'', sound = ''digital_screech'',
     evasionDirection = ''random'',
     description = ''Creates glitching danger zones that shift unpredictably'' \<rparr>"

definition ANDROSS_WRATH :: attack where
  "ANDROSS_WRATH = \<lparr> attack_id = ''andross_wrath'', attack_name = ''Andross's Wrath'',
     attack_type = ''unique'', bossLevel = Some 7, damage = 60,
     telegraphDuration = 2500, executeDuration = 3500, recoveryDuration = 1500,
     dangerZone = ''multi_phase'', indicator = ''power_surge'', sound = ''ultimate_charge'',
     evasionDirection = ''complex'',
     description = ''Multi-phase devastating attack requiring multiple evasions'' \<rparr>"

text \<open>\<open>Object.values\<close> of the two tables, in insertion order.\<close>

definition COMMON_ATTACKS :: "attack list" where
  "COMMON_ATTACKS = [SWEEPING_LASER, MISSILE_BARRAGE]"

definition UNIQUE_ATTACKS :: "attack list" where
  "UNIQUE_ATTACKS = [STOMP_SHOCKWAVE, DEBRIS_STORM, CRYO_BLAST, SOLAR_FLARE, TOXIC_SPRAY,
     SYSTEM_CORRUPTION, ANDROSS_WRATH]"

subsection \<open>getAttacksForBoss\<close>

record attack_set =
  common_of :: "attack list"
  unique_of :: "attack option"
  all_of :: "attack list"

definition getAttacksForBoss :: "real \<Rightarrow> attack_set" where
  "getAttacksForBoss level =
     (let commonAttacks = COMMON_ATTACKS;
          uniqueAttack = find (\<lambda>a. bossLevel a = Some level) UNIQUE_ATTACKS
      in \<lparr> common_of = commonAttacks,
           unique_of = uniqueAttack,
           all_of = (case uniqueAttack of Some u \<Rightarrow> commonAttacks @ [u]
                     | None \<Rightarrow> commonAttacks) \<rparr>)"

subsection \<open>selectRandomAttack\<close>

text \<open>\<open>xs[i]\<close>: \<open>undefined\<close> (\<open>None\<close>) outside the array.\<close>

fun nth_opt :: "'a list \<Rightarrow> int \<Rightarrow> 'a option" where
  "nth_opt xs i = (if 0 \<le> i \<and> i < int (length xs) then Some (xs ! nat i) else None)"

text \<open>
  The numbers this function computes: a finite double, an infinity or \<open>NaN\<close>.
\<close>

datatype jsnum = Num real | PosInfinity | NegInfinity | NaN

text \<open>
  Rounding to the nearest double, ties to the even significand. For \<open>x \<noteq> 0\<close>,
  \<open>exponent x\<close> is the integer \<open>e\<close> with \<open>2^e \<le> |x| < 2^(e+1)\<close>; the doubles around \<open>x\<close> are
  the multiples of \<open>2^q\<close> with \<open>q = max (e - 52) (-1074)\<close> (the second bound is the spacing of
  the subnormal numbers); a result of magnitude \<open>2^1024\<close> or more is an infinity.
\<close>

fun log2floor :: "nat \<Rightarrow> nat" where
  "log2floor n = (if n < 2 then 0 else Suc (log2floor (n div 2)))"

declare log2floor.simps [simp del]

definition exponent :: "real \<Rightarrow> int" where
  "exponent x =
     (if 1 \<le> \<bar>x\<bar> then int (log2floor (nat \<lfloor>\<bar>x\<bar>\<rfloor>))
      else - int (Suc (log2floor (nat (\<lceil>1 / \<bar>x\<bar>\<rceil> - 1)))))"

definition pow2 :: "int \<Rightarrow> real" where
  "pow2 q = (if 0 \<le> q then 2 ^ nat q else 1 / 2 ^ nat (- q))"

definition round_half_even :: "real \<Rightarrow> int" where
  "round_half_even y =
     (let n = \<lfloor>y\<rfloor>; d = y - of_int n
      in if d < 1/2 then n else if 1/2 < d then n + 1 else if even n then n else n + 1)"

definition fl64 :: "real \<Rightarrow> jsnum" where
  "fl64 x =
     (if x = 0 then Num 0
      else let q = max (exponent x - 52) (- 1074);
               v = of_int (round_half_even (x / pow2 q)) * pow2 q
           in if 2 ^ 1024 \<le> v then PosInfinity
              else if v \<le> - (2 ^ 1024) then NegInfinity
              else Num v)"

text \<open>
  The three operations of the function, each on the operands it has there: \<open>sum + w\<close> and
  \<open>random - weights[i]\<close> with a weight on the right (\<open>None\<close> for a missing weight, which
  makes the difference \<open>NaN\<close>), \<open>Math.random() * totalWeight\<close> with the draw on the left;
  and the test \<open>random <= 0\<close>.
\<close>

fun js_add :: "jsnum \<Rightarrow> real \<Rightarrow> jsnum" where
  "js_add (Num a) w = fl64 (a + w)"
| "js_add PosInfinity w = PosInfinity"
| "js_add NegInfinity w = NegInfinity"
| "js_add NaN w = NaN"

fun js_sub :: "jsnum \<Rightarrow> real option \<Rightarrow> jsnum" where
  "js_sub x None = NaN"
| "js_sub (Num a) (Some w) = fl64 (a - w)"
| "js_sub PosInfinity (Some w) = PosInfinity"
| "js_sub NegInfinity (Some w) = NegInfinity"
| "js_sub NaN (Some w) = NaN"

fun js_mul :: "real \<Rightarrow> jsnum \<Rightarrow> jsnum" where
  "js_mul u (Num t) = fl64 (u * t)"
| "js_mul u PosInfinity = (if u = 0 then NaN else if 0 < u then PosInfinity else NegInfinity)"
| "js_mul u NegInfinity = (if u = 0 then NaN else if 0 < u then NegInfinity else PosInfinity)"
| "js_mul u NaN = NaN"

fun le_zero :: "jsnum \<Rightarrow> bool" where
  "le_zero (Num a) = (a \<le> 0)"
| "le_zero NegInfinity = True"
| "le_zero PosInfinity = False"
| "le_zero NaN = False"

text \<open>\<open>weights[i]\<close> for the index the loop stands at, the list being what is left from there.\<close>

fun weight_here :: "real list \<Rightarrow> real option" where
  "weight_here [] = None"
| "weight_here (w # ws) = Some w"

text \<open>
  The \<open>for\<close> loop of \<open>selectRandomAttack\<close>, from the current index on: the remaining attacks,
  the remaining weights and the running value of \<open>random\<close>. The result is \<open>None\<close> when the
  loop ends without returning.
\<close>

fun walk :: "'a list \<Rightarrow> real list \<Rightarrow> jsnum \<Rightarrow> 'a option" where
  "walk [] ws random = None"
| "walk (a # as) ws random =
     (let random' = js_sub random (weight_here ws)
      in if le_zero random' then Some a else walk as (tl ws) random')"

text \<open>\<open>weights.reduce((sum, w) => sum + w, 0)\<close>, and the first value of \<open>random\<close>.\<close>

definition totalWeight :: "real list \<Rightarrow> jsnum" where
  "totalWeight ws = foldl js_add (Num 0) ws"

definition draw :: "real list \<Rightarrow> real \<Rightarrow> jsnum" where
  "draw ws u = js_mul u (totalWeight ws)"

definition selectRandomAttack :: "'a list \<Rightarrow> real list option \<Rightarrow> real \<Rightarrow> 'a option" where
  "selectRandomAttack attacks weights u =
     (case weights of
        None \<Rightarrow>
          (case fl64 (u * real (length attacks)) of
             Num x \<Rightarrow> nth_opt attacks \<lfloor>x\<rfloor>
           | _ \<Rightarrow> None)
      | Some ws \<Rightarrow>
          (let random = draw ws u
           in case walk attacks ws random of
                Some a \<Rightarrow> Some a
              | None \<Rightarrow> nth_opt attacks (int (length attacks) - 1)))"




subsection \<open>calculateNextAttackDelay\<close>

text \<open>\<open>MathUtils.randFloat(low, high)\<close> of three.js is \<open>low + Math.random() * (high - low)\<close>.\<close>

definition randFloat :: "real \<Rightarrow> real \<Rightarrow> real \<Rightarrow> real" where
  "randFloat low high u = low + u * (high - low)"

definition rageMultiplier :: "real \<Rightarrow> real" where
  "rageMultiplier bossHealthPercent = 1 - (bossHealthPercent * 0.3)"

definition calculateNextAttackDelay :: "real \<Rightarrow> real \<Rightarrow> real" where
  "calculateNextAttackDelay bossHealthPercent u =
     (let baseDelay = randFloat ATTACK_INTERVAL_MIN ATTACK_INTERVAL_MAX u
      in baseDelay * rageMultiplier bossHealthPercent)"

subsection \<open>The attack registry\<close>

text \<open>
  \<open>ATTACK_REGISTRY\<close> is a plain object built by spreading the entries \<open>[val.id, val]\<close> of the
  common and then of the unique attacks (a later entry with the same id replaces an earlier
  one). \<open>ATTACK_REGISTRY[attackId]\<close> is an ordinary property read, so it follows the prototype
  chain: a name that is no attack id but is a member of \<open>Object.prototype\<close> yields that member
  (a built-in function or, for \<open>__proto__\<close>, the prototype object itself), which is truthy and
  has none of the fields of an attack. Any other name yields \<open>undefined\<close> (\<open>None\<close>).

  \<open>Inherited k\<close> is the member \<open>k\<close> itself. \<open>Returned k prev\<close> is the value the inherited
  function \<open>k\<close> returns when it is called, without a receiver, on the value \<open>prev\<close>: that is
  what a state setter stores when it is handed a function (see \<open>startAttack\<close>).
\<close>

datatype attack_value = Def attack | Inherited string | Returned string "attack_value option"

definition Object_prototype_names :: "string list" where
  "Object_prototype_names =
     [''constructor'', ''__defineGetter__'', ''__defineSetter__'', ''hasOwnProperty'',
      ''__lookupGetter__'', ''__lookupSetter__'', ''isPrototypeOf'', ''propertyIsEnumerable'',
      ''toString'', ''valueOf'', ''__proto__'', ''toLocaleString'']"

definition registry_entries :: "(string \<times> attack) list" where
  "registry_entries = map (\<lambda>val. (attack_id val, val)) (COMMON_ATTACKS @ UNIQUE_ATTACKS)"

definition ATTACK_REGISTRY :: "string \<Rightarrow> attack_value option" where
  "ATTACK_REGISTRY attackId =
     (case map_of (rev registry_entries) attackId of
        Some val \<Rightarrow> Some (Def val)
      | None \<Rightarrow> if attackId \<in> set Object_prototype_names then Some (Inherited attackId)
                else None)"

text \<open>Field reads on the value handed to \<open>startAttack\<close>; \<open>None\<close> is \<open>undefined\<close>.\<close>

fun telegraphDuration_of :: "attack_value \<Rightarrow> real option" where
  "telegraphDuration_of (Def a) = Some (telegraphDuration a)"
| "telegraphDuration_of v = None"

fun executeDuration_of :: "attack_value \<Rightarrow> real option" where
  "executeDuration_of (Def a) = Some (executeDuration a)"
| "executeDuration_of v = None"

fun recoveryDuration_of :: "attack_value \<Rightarrow> real option" where
  "recoveryDuration_of (Def a) = Some (recoveryDuration a)"
| "recoveryDuration_of v = None"

fun damage_of :: "attack_value \<Rightarrow> real option" where
  "damage_of (Def a) = Some (damage a)"
| "damage_of v = None"

text \<open>
  \<open>setCurrentAttack(attack)\<close>. A value that is not a function is stored as it is. A function
  is run by React as an updater, without a receiver and with the previous value of the cell
  as its argument, when the component next renders, and what it returns is stored.
  Of the functions of \<open>Object.prototype\<close>, \<open>constructor\<close> (which is \<open>Object\<close>) and \<open>toString\<close>
  return for every argument; \<open>isPrototypeOf\<close> returns \<open>false\<close> for an argument that is no
  object and otherwise converts its missing receiver to an object, which throws; the eight
  others convert the receiver first and always throw.
\<close>

definition throwing_names :: "string list" where
  "throwing_names =
     [''valueOf'', ''hasOwnProperty'', ''propertyIsEnumerable'', ''toLocaleString'',
      ''__defineGetter__'', ''__defineSetter__'', ''__lookupGetter__'', ''__lookupSetter__'']"

fun is_object :: "attack_value option \<Rightarrow> bool" where
  "is_object None = False"
| "is_object (Some (Def a)) = True"
| "is_object (Some (Inherited k)) = True"
| "is_object (Some (Returned k prev)) = (k = ''constructor'')"

fun updater_throws :: "attack_value \<Rightarrow> attack_value option \<Rightarrow> bool" where
  "updater_throws (Inherited k) prev =
     (k \<in> set throwing_names \<or> (k = ''isPrototypeOf'' \<and> is_object prev))"
| "updater_throws v prev = False"

fun stored :: "attack_value \<Rightarrow> attack_value option \<Rightarrow> attack_value" where
  "stored (Inherited k) prev = (if k = ''__proto__'' then Inherited k else Returned k prev)"
| "stored v prev = v"

subsection \<open>The hook useBossAttackController\<close>

text \<open>
  The hook's body runs once per render. Its parameters (\<open>bossLevel\<close>, \<open>maxHP\<close>,
  \<open>playerIsInvulnerable\<close>) and the state value \<open>currentHP\<close> are constants of that one run,
  and the functions created in it (\<open>startAttack\<close>, \<open>scheduleNextAttack\<close>, the callbacks handed
  to \<open>setTimeout\<close>) close over them: the test \<open>if (!playerIsInvulnerable)\<close> in the hit check
  and the test \<open>if (currentHP <= 0)\<close> in the scheduler read the bindings of the render in
  which the enclosing \<open>startAttack\<close> or \<open>scheduleNextAttack\<close> was created, whatever the props
  and the state are when the timer runs. None of these values is kept in a ref.

  A \<open>render\<close> record holds the bindings of one render; every function of the model that
  stands for such a closure takes the render it was created in as its first argument.
  \<open>startAttack\<close> names the \<open>scheduleNextAttack\<close> of its own render, and \<open>scheduleNextAttack\<close>
  has \<open>startAttack\<close> among its dependencies, so a whole attack cycle and every cycle
  scheduled from it run with the bindings of one render.
\<close>

record render =
  r_bossLevel :: real
  r_maxHP :: real
  r_currentHP :: real
  r_playerIsInvulnerable :: bool

text \<open>The functions handed to \<open>setTimeout\<close>, one constructor for each.\<close>

datatype callback =
    ClearIsHit
  | SelectAndStart render
  | EnterExecuting render attack_value
  | HitCheck render attack_value
  | EnterRecovery render attack_value
  | ReturnToIdle render attack_value

record timer =
  handle :: nat
  due :: real
  callback :: callback

text \<open>
  The state of one mounted hook: the five \<open>useState\<close> cells, the four refs, the props of the
  latest render, the clock (\<open>Date.now()\<close>), the pending timers, and a log of the calls made to
  the two callbacks \<open>onBossDefeated\<close> and \<open>onPlayerHit\<close> (the argument of the latter is
  \<open>None\<close> when it is \<open>undefined\<close>). \<open>unmounted\<close> is set when a render of the component has
  thrown and React has removed it, running the cleanup of its effects. What the closures
  that outlive the component do is not followed beyond that point: the functions below
  treat such a record as they treat any other.
\<close>

record machine =
  currentHP :: real
  phase :: phase
  currentAttack :: "attack_value option"
  attackProgress :: real
  isHit :: bool
  attackTimerRef :: "nat option"
  phaseTimerRef :: "nat option"
  attackStartTimeRef :: real
  currentPhaseDurationRef :: "real option"
  bossLevel_prop :: real
  maxHP :: real
  playerIsInvulnerable :: bool
  unmounted :: bool
  clock :: real
  timers :: "timer list"
  next_handle :: nat
  onBossDefeated_calls :: nat
  onPlayerHit_calls :: "real option list"

text \<open>The bindings of the render that shows the state \<open>s\<close>.\<close>

definition render_of :: "machine \<Rightarrow> render" where
  "render_of s = \<lparr> r_bossLevel = bossLevel_prop s, r_maxHP = maxHP s,
     r_currentHP = currentHP s, r_playerIsInvulnerable = playerIsInvulnerable s \<rparr>"

text \<open>
  \<open>setTimeout(cb, delay)\<close> returns a fresh handle; a delay that is \<open>undefined\<close>, \<open>NaN\<close>,
  infinite (\<open>None\<close>) or negative counts as 0. \<open>clearTimeout(ref)\<close> removes the pending timer
  with that handle, if there is one.
\<close>

definition setTimeout :: "callback \<Rightarrow> real option \<Rightarrow> machine \<Rightarrow> nat \<times> machine" where
  "setTimeout cb delay s =
     (let d = (case delay of None \<Rightarrow> 0 | Some x \<Rightarrow> max 0 x);
          h = next_handle s
      in (h, s\<lparr> timers := timers s @ [\<lparr> handle = h, due = clock s + d, callback = cb \<rparr>],
                next_handle := Suc h \<rparr>))"

definition clearTimeout :: "nat option \<Rightarrow> machine \<Rightarrow> machine" where
  "clearTimeout ref s =
     (case ref of None \<Rightarrow> s
      | Some h \<Rightarrow> s\<lparr> timers := filter (\<lambda>t. handle t \<noteq> h) (timers s) \<rparr>)"

definition damageBoss :: "real \<Rightarrow> machine \<Rightarrow> machine" where
  "damageBoss amount s =
     (let s1 = snd (setTimeout ClearIsHit (Some DAMAGE_FLASH_DURATION) (s\<lparr> isHit := True \<rparr>));
          newHP = max 0 (currentHP s1 - amount)
      in s1\<lparr> currentHP := newHP,
             onBossDefeated_calls :=
               (if newHP \<le> 0 then Suc (onBossDefeated_calls s1) else onBossDefeated_calls s1) \<rparr>)"

definition handleWeakPointHit :: "machine \<Rightarrow> machine" where
  "handleWeakPointHit s = damageBoss 50 s"

text \<open>
  \<open>healthPercent = currentHP / maxHP\<close> of a render. With \<open>maxHP = 0\<close> the quotient is no
  real number; the two functions below are what the source computes from it where it is used:
  the delay handed to \<open>setTimeout\<close> (\<open>None\<close> when it is not finite) and the test
  \<open>healthPercent < 0.5\<close>. Both are reached only after the test \<open>currentHP <= 0\<close> has
  failed, where \<open>currentHP / 0\<close> is \<open>+Infinity\<close>.
\<close>

definition healthPercent :: "render \<Rightarrow> real" where
  "healthPercent r = r_currentHP r / r_maxHP r"

definition next_delay :: "render \<Rightarrow> real \<Rightarrow> real option" where
  "next_delay r u =
     (if r_maxHP r = 0 then None else Some (calculateNextAttackDelay (healthPercent r) u))"

definition below_half :: "render \<Rightarrow> bool" where
  "below_half r = (r_maxHP r \<noteq> 0 \<and> healthPercent r < 0.5)"

definition attack_weights :: "render \<Rightarrow> attack list \<Rightarrow> real list" where
  "attack_weights r attackPool =
     map (\<lambda>atk. if attack_type atk = ''unique'' \<and> below_half r then 2 else 1) attackPool"

definition scheduleNextAttack :: "render \<Rightarrow> real \<Rightarrow> machine \<Rightarrow> machine" where
  "scheduleNextAttack r u s =
     (if r_currentHP r \<le> 0 then s
      else let (h, s1) = setTimeout (SelectAndStart r) (next_delay r u) s
           in s1\<lparr> attackTimerRef := Some h \<rparr>)"

text \<open>The cleanup of the two effects, run when the component is unmounted.\<close>

definition unmount :: "machine \<Rightarrow> machine" where
  "unmount s = clearTimeout (phaseTimerRef s) (clearTimeout (attackTimerRef s) s)"

text \<open>
  \<open>startAttack(attack)\<close>. Its two state setters only queue their updates; the refs are
  written and the telegraph timer is armed at once, and the render that follows applies the
  queued updates. When the update of \<open>currentAttack\<close> throws there (\<open>updater_throws\<close>), the
  render fails, nothing of it is committed, and React unmounts the component: the cleanup
  clears the timer just armed.
\<close>

definition startAttack :: "render \<Rightarrow> attack_value \<Rightarrow> machine \<Rightarrow> machine" where
  "startAttack r attack s =
     (let s1 = s\<lparr> attackStartTimeRef := clock s,
                  currentPhaseDurationRef := telegraphDuration_of attack \<rparr>;
          (h, s2) = setTimeout (EnterExecuting r attack) (telegraphDuration_of attack) s1;
          s3 = s2\<lparr> phaseTimerRef := Some h \<rparr>
      in if updater_throws attack (currentAttack s)
         then unmount (s3\<lparr> unmounted := True \<rparr>)
         else s3\<lparr> currentAttack := Some (stored attack (currentAttack s)),
                  phase := TELEGRAPH \<rparr>)"

text \<open>
  What each timer callback does when it runs; \<open>u\<close> is the result of the one call of
  \<open>Math.random()\<close> that the callback may make.
\<close>

fun fire :: "callback \<Rightarrow> real \<Rightarrow> machine \<Rightarrow> machine" where
  "fire ClearIsHit u s = s\<lparr> isHit := False \<rparr>"
| "fire (SelectAndStart r) u s =
     (let attackPool = all_of (getAttacksForBoss (r_bossLevel r));
          weights = attack_weights r attackPool
      in case selectRandomAttack attackPool (Some weights) u of
           Some selectedAttack \<Rightarrow> startAttack r (Def selectedAttack) s
         | None \<Rightarrow> s\<lparr> currentAttack := None, phase := TELEGRAPH,
                       attackStartTimeRef := clock s \<rparr>)"
| "fire (EnterExecuting r attack) u s =
     (let s1 = s\<lparr> phase := EXECUTING, attackStartTimeRef := clock s,
                  currentPhaseDurationRef := executeDuration_of attack \<rparr>;
          hitCheckDelay = map_option (\<lambda>d. d * 0.3) (executeDuration_of attack);
          s2 = snd (setTimeout (HitCheck r attack) hitCheckDelay s1);
          (h, s3) = setTimeout (EnterRecovery r attack) (executeDuration_of attack) s2
      in s3\<lparr> phaseTimerRef := Some h \<rparr>)"
| "fire (HitCheck r attack) u s =
     (if \<not> r_playerIsInvulnerable r
      then s\<lparr> onPlayerHit_calls := onPlayerHit_calls s @ [damage_of attack] \<rparr>
      else s)"
| "fire (EnterRecovery r attack) u s =
     (let s1 = s\<lparr> phase := RECOVERY, attackStartTimeRef := clock s,
                  currentPhaseDurationRef := recoveryDuration_of attack \<rparr>;
          (h, s2) = setTimeout (ReturnToIdle r attack) (recoveryDuration_of attack) s1
      in s2\<lparr> phaseTimerRef := Some h \<rparr>)"
| "fire (ReturnToIdle r attack) u s =
     scheduleNextAttack r u (s\<lparr> phase := IDLE, currentAttack := None, attackProgress := 0 \<rparr>)"

definition forceAttack :: "render \<Rightarrow> string \<Rightarrow> machine \<Rightarrow> machine" where
  "forceAttack r attackId s =
     (case ATTACK_REGISTRY attackId of
        None \<Rightarrow> s
      | Some attack \<Rightarrow>
          startAttack r attack (clearTimeout (phaseTimerRef s) (clearTimeout (attackTimerRef s) s)))"

text \<open>The \<open>useFrame\<close> callback: the progress of the current phase, once per rendered frame.\<close>

definition useFrame :: "machine \<Rightarrow> machine" where
  "useFrame s =
     (case currentPhaseDurationRef s of
        Some d \<Rightarrow>
          if phase s \<noteq> IDLE \<and> d > 0
          then s\<lparr> attackProgress := min 1 ((clock s - attackStartTimeRef s) / d) \<rparr>
          else s
      | None \<Rightarrow> s)"

text \<open>
  Mounting: the initial values of the state cells and refs, then the effect that calls
  \<open>scheduleNextAttack\<close> of the first render.
\<close>

definition initial :: "real \<Rightarrow> real \<Rightarrow> bool \<Rightarrow> machine" where
  "initial level mhp invulnerable =
     \<lparr> currentHP = mhp, phase = IDLE, currentAttack = None, attackProgress = 0, isHit = False,
       attackTimerRef = None, phaseTimerRef = None, attackStartTimeRef = 0,
       currentPhaseDurationRef = Some 0, bossLevel_prop = level, maxHP = mhp,
       playerIsInvulnerable = invulnerable, unmounted = False, clock = 0, timers = [],
       next_handle = 0,
       onBossDefeated_calls = 0, onPlayerHit_calls = [] \<rparr>"

definition mount :: "real \<Rightarrow> real \<Rightarrow> bool \<Rightarrow> real \<Rightarrow> machine" where
  "mount level mhp invulnerable u =
     (let s = initial level mhp invulnerable in scheduleNextAttack (render_of s) u s)"

subsection \<open>The timeline of an encounter\<close>

text \<open>
  The pending timer that runs next: the one with the earliest due time, the older one among
  equals.
\<close>

fun next_timer :: "timer list \<Rightarrow> timer option" where
  "next_timer [] = None"
| "next_timer (t # ts) =
     (case next_timer ts of
        None \<Rightarrow> Some t
      | Some t' \<Rightarrow> if due t \<le> due t' then Some t else Some t')"

text \<open>
  What can happen to a mounted hook. Time passes either up to the moment the next timer is
  due (\<open>Elapse\<close> stops there) or by that timer running (\<open>TimerFires\<close>, with the random number
  its callback may draw). \<open>ForceAttack\<close> names the render whose \<open>forceAttack\<close> the caller holds.
\<close>

datatype event =
    DamageBoss real
  | WeakPointHit
  | ForceAttack render string
  | TimerFires real
  | Elapse real
  | Frame
  | Rerender bool

definition timer_fires :: "real \<Rightarrow> machine \<Rightarrow> machine" where
  "timer_fires u s =
     (case next_timer (timers s) of
        None \<Rightarrow> s
      | Some t \<Rightarrow>
          fire (callback t) u
            (s\<lparr> timers := filter (\<lambda>t'. handle t' \<noteq> handle t) (timers s),
                clock := max (clock s) (due t) \<rparr>))"

definition elapse :: "real \<Rightarrow> machine \<Rightarrow> machine" where
  "elapse d s =
     (let t = clock s + max 0 d
      in case next_timer (timers s) of
           None \<Rightarrow> s\<lparr> clock := t \<rparr>
         | Some tm \<Rightarrow> s\<lparr> clock := max (clock s) (min t (due tm)) \<rparr>)"

fun step :: "machine \<Rightarrow> event \<Rightarrow> machine" where
  "step s (DamageBoss amount) = damageBoss amount s"
| "step s WeakPointHit = handleWeakPointHit s"
| "step s (ForceAttack r attackId) = forceAttack r attackId s"
| "step s (TimerFires u) = timer_fires u s"
| "step s (Elapse d) = elapse d s"
| "step s Frame = useFrame s"
| "step s (Rerender invulnerable) = s\<lparr> playerIsInvulnerable := invulnerable \<rparr>"

definition run :: "machine \<Rightarrow> event list \<Rightarrow> machine" where
  "run s evs = foldl step s evs"

text \<open>The damage an event deals to the boss, if it is one of the two that deal damage.\<close>

fun is_damage :: "event \<Rightarrow> bool" where
  "is_damage (DamageBoss amount) = True"
| "is_damage WeakPointHit = True"
| "is_damage ev = False"

fun damage_amount :: "event \<Rightarrow> real" where
  "damage_amount (DamageBoss amount) = amount"
| "damage_amount WeakPointHit = 50"
| "damage_amount ev = 0"

subsection \<open>Concrete encounters\<close>

text \<open>
  A level-1 boss with the default health pool and a vulnerable player; the first call of
  \<open>Math.random()\<close> returns \<open>1/2\<close>.
\<close>

definition encounter :: machine where
  "encounter = mount 1 BASE_HP False (1/2)"

text \<open>The boss is brought to zero health while it is idle.\<close>

definition defeated :: machine where
  "defeated = run encounter [DamageBoss 1000]"

text \<open>
  An attack is forced, its telegraph elapses, and 200 ms into its execute phase (before the
  hit check at 540 ms) another attack is forced; then the next timer runs.
\<close>

definition forced_during_executing :: machine where
  "forced_during_executing =
     run encounter
       [ForceAttack (render_of encounter) ''sweeping_laser'', TimerFires 0, Elapse 200,
        ForceAttack (render_of encounter) ''stomp_shockwave'', TimerFires 0]"

text \<open>
  An attack is forced while the player is vulnerable; the player becomes invulnerable during
  the telegraph; the telegraph timer and then the hit check run.
\<close>

definition invulnerable_after_start :: machine where
  "invulnerable_after_start =
     run encounter
       [ForceAttack (render_of encounter) ''stomp_shockwave'', Rerender True,
        TimerFires 0, TimerFires 0]"

section \<open>Properties\<close>

subsection \<open>Auxiliary facts\<close>

lemmas catalogue_defs =
  SWEEPING_LASER_def MISSILE_BARRAGE_def STOMP_SHOCKWAVE_def DEBRIS_STORM_def CRYO_BLAST_def
  SOLAR_FLARE_def TOXIC_SPRAY_def SYSTEM_CORRUPTION_def ANDROSS_WRATH_def

text \<open>Two fields of the catalogue's entries.\<close>

lemma bossLevel_catalogue [simp]:
  "bossLevel SWEEPING_LASER = None" "bossLevel MISSILE_BARRAGE = None"
  "bossLevel STOMP_SHOCKWAVE = Some 1" "bossLevel DEBRIS_STORM = Some 2"
  "bossLevel CRYO_BLAST = Some 3" "bossLevel SOLAR_FLARE = Some 4"
  "bossLevel TOXIC_SPRAY = Some 5" "bossLevel SYSTEM_CORRUPTION = Some 6"
  "bossLevel ANDROSS_WRATH = Some 7"
  by (simp_all add: catalogue_defs)

lemma attack_type_catalogue [simp]:
  "attack_type SWEEPING_LASER = ''common''" "attack_type MISSILE_BARRAGE = ''common''"
  "attack_type STOMP_SHOCKWAVE = ''unique''" "attack_type DEBRIS_STORM = ''unique''"
  "attack_type CRYO_BLAST = ''unique''" "attack_type SOLAR_FLARE = ''unique''"
  "attack_type TOXIC_SPRAY = ''unique''" "attack_type SYSTEM_CORRUPTION = ''unique''"
  "attack_type ANDROSS_WRATH = ''unique''"
  by (simp_all add: catalogue_defs)

text \<open>Which fields each operation leaves alone.\<close>

lemma setTimeout_fields [simp]:
  "currentHP (snd (setTimeout cb d s)) = currentHP s"
  "maxHP (snd (setTimeout cb d s)) = maxHP s"
  "onBossDefeated_calls (snd (setTimeout cb d s)) = onBossDefeated_calls s"
  "onPlayerHit_calls (snd (setTimeout cb d s)) = onPlayerHit_calls s"
  "phase (snd (setTimeout cb d s)) = phase s"
  by (simp_all add: setTimeout_def Let_def)

lemma clearTimeout_fields [simp]:
  "currentHP (clearTimeout ref s) = currentHP s"
  "maxHP (clearTimeout ref s) = maxHP s"
  "onBossDefeated_calls (clearTimeout ref s) = onBossDefeated_calls s"
  "onPlayerHit_calls (clearTimeout ref s) = onPlayerHit_calls s"
  "phase (clearTimeout ref s) = phase s"
  by (simp_all add: clearTimeout_def split: option.splits)

lemma scheduleNextAttack_fields [simp]:
  "currentHP (scheduleNextAttack r u s) = currentHP s"
  "maxHP (scheduleNextAttack r u s) = maxHP s"
  "onBossDefeated_calls (scheduleNextAttack r u s) = onBossDefeated_calls s"
  "onPlayerHit_calls (scheduleNextAttack r u s) = onPlayerHit_calls s"
  "phase (scheduleNextAttack r u s) = phase s"
  by (simp_all add: scheduleNextAttack_def split_beta)

lemma unmount_fields [simp]:
  "currentHP (unmount s) = currentHP s"
  "maxHP (unmount s) = maxHP s"
  "onBossDefeated_calls (unmount s) = onBossDefeated_calls s"
  "onPlayerHit_calls (unmount s) = onPlayerHit_calls s"
  "phase (unmount s) = phase s"
  by (simp_all add: unmount_def)

lemma startAttack_fields [simp]:
  "currentHP (startAttack r a s) = currentHP s"
  "maxHP (startAttack r a s) = maxHP s"
  "onBossDefeated_calls (startAttack r a s) = onBossDefeated_calls s"
  "onPlayerHit_calls (startAttack r a s) = onPlayerHit_calls s"
  "phase (startAttack r (Def d) s) = TELEGRAPH"
  "currentAttack (startAttack r (Def d) s) = Some (Def d)"
  by (simp_all add: startAttack_def split_beta Let_def setTimeout_def)

lemma fire_fields [simp]:
  "currentHP (fire cb u s) = currentHP s"
  "maxHP (fire cb u s) = maxHP s"
  "onBossDefeated_calls (fire cb u s) = onBossDefeated_calls s"
  by (cases cb; simp add: split_beta Let_def split: option.splits)+

lemma forceAttack_fields [simp]:
  "currentHP (forceAttack r k s) = currentHP s"
  "maxHP (forceAttack r k s) = maxHP s"
  "onBossDefeated_calls (forceAttack r k s) = onBossDefeated_calls s"
  "onPlayerHit_calls (forceAttack r k s) = onPlayerHit_calls s"
  by (simp_all add: forceAttack_def split: option.splits)

lemma useFrame_fields [simp]:
  "currentHP (useFrame s) = currentHP s"
  "maxHP (useFrame s) = maxHP s"
  "onBossDefeated_calls (useFrame s) = onBossDefeated_calls s"
  "onPlayerHit_calls (useFrame s) = onPlayerHit_calls s"
  by (simp_all add: useFrame_def split: option.splits)

lemma timer_fires_fields [simp]:
  "currentHP (timer_fires u s) = currentHP s"
  "maxHP (timer_fires u s) = maxHP s"
  "onBossDefeated_calls (timer_fires u s) = onBossDefeated_calls s"
  by (simp_all add: timer_fires_def split: option.splits)

lemma elapse_fields [simp]:
  "currentHP (elapse d s) = currentHP s"
  "maxHP (elapse d s) = maxHP s"
  "onBossDefeated_calls (elapse d s) = onBossDefeated_calls s"
  "onPlayerHit_calls (elapse d s) = onPlayerHit_calls s"
  by (simp_all add: elapse_def Let_def split: option.splits)

lemma damageBoss_fields [simp]:
  "currentHP (damageBoss amount s) = max 0 (currentHP s - amount)"
  "maxHP (damageBoss amount s) = maxHP s"
  "onBossDefeated_calls (damageBoss amount s)
     = (if currentHP s - amount \<le> 0 then Suc (onBossDefeated_calls s)
        else onBossDefeated_calls s)"
  "onPlayerHit_calls (damageBoss amount s) = onPlayerHit_calls s"
  by (simp_all add: damageBoss_def Let_def)

lemma mount_fields [simp]:
  "currentHP (mount level mhp i u) = mhp"
  "maxHP (mount level mhp i u) = mhp"
  "onBossDefeated_calls (mount level mhp i u) = 0"
  by (simp_all add: mount_def Let_def initial_def)

text \<open>One event, and a run of events.\<close>

lemma step_maxHP [simp]: "maxHP (step s ev) = maxHP s"
  by (cases ev) (simp_all add: handleWeakPointHit_def)

lemma step_currentHP:
  "currentHP (step s ev)
     = (if is_damage ev then max 0 (currentHP s - damage_amount ev) else currentHP s)"
  by (cases ev) (simp_all add: handleWeakPointHit_def)

lemma step_onBossDefeated:
  "onBossDefeated_calls (step s ev)
     = (if is_damage ev \<and> currentHP s - damage_amount ev \<le> 0
        then Suc (onBossDefeated_calls s) else onBossDefeated_calls s)"
  by (cases ev) (simp_all add: handleWeakPointHit_def)

lemma run_Nil [simp]: "run s [] = s"
  by (simp add: run_def)

lemma run_Cons [simp]: "run s (ev # evs) = run (step s ev) evs"
  by (simp add: run_def)

lemma run_snoc: "run s (evs @ [ev]) = step (run s evs) ev"
  by (simp add: run_def)

lemma run_maxHP [simp]: "maxHP (run s evs) = maxHP s"
  by (induction evs arbitrary: s) simp_all

lemma run_nonneg: "0 \<le> currentHP s \<Longrightarrow> 0 \<le> currentHP (run s evs)"
  by (induction evs arbitrary: s) (simp_all add: step_currentHP)

lemma run_le_max:
  "currentHP s \<le> maxHP s \<Longrightarrow> 0 \<le> maxHP s \<Longrightarrow> list_all (\<lambda>ev. 0 \<le> damage_amount ev) evs \<Longrightarrow>
   currentHP (run s evs) \<le> maxHP s"
proof (induction evs arbitrary: s)
  case Nil
  then show ?case by simp
next
  case (Cons ev evs)
  from Cons.prems have "currentHP (step s ev) \<le> maxHP (step s ev)"
    by (simp add: step_currentHP)
  moreover from Cons.prems have "0 \<le> maxHP (step s ev)"
    and "list_all (\<lambda>ev. 0 \<le> damage_amount ev) evs" by simp_all
  ultimately have "currentHP (run (step s ev) evs) \<le> maxHP (step s ev)"
    by (rule Cons.IH)
  then show ?case by simp
qed

lemma run_after_defeat:
  "currentHP s = 0 \<Longrightarrow> list_all (\<lambda>amount. 0 \<le> amount) amounts \<Longrightarrow>
   currentHP (run s (map DamageBoss amounts)) = 0
   \<and> onBossDefeated_calls (run s (map DamageBoss amounts))
       = onBossDefeated_calls s + length amounts"
  by (induction amounts arbitrary: s) simp_all





text \<open>Evaluating the rounding at given numbers.\<close>

lemmas fl64_eval =
  fl64_def exponent_def log2floor.simps round_half_even_def pow2_def Let_def

lemma fl64_small [simp]:
  "fl64 1 = Num 1" "fl64 2 = Num 2" "fl64 3 = Num 3" "fl64 4 = Num 4"
  "fl64 (1/2) = Num (1/2)" "fl64 (3/2) = Num (3/2)" "fl64 (- (1/2)) = Num (- (1/2))"
  by (simp_all add: fl64_eval)

text \<open>The concrete encounter and the registry, evaluated.\<close>

lemma encounter_eval:
  "encounter = \<lparr> currentHP = 1000, phase = IDLE, currentAttack = None, attackProgress = 0,
       isHit = False, attackTimerRef = Some 0, phaseTimerRef = None, attackStartTimeRef = 0,
       currentPhaseDurationRef = Some 0, bossLevel_prop = 1, maxHP = 1000,
       playerIsInvulnerable = False, unmounted = False, clock = 0,
       timers = [\<lparr> handle = 0, due = 3150, callback = SelectAndStart
          \<lparr> r_bossLevel = 1, r_maxHP = 1000, r_currentHP = 1000,
            r_playerIsInvulnerable = False \<rparr> \<rparr>],
       next_handle = 1, onBossDefeated_calls = 0, onPlayerHit_calls = [] \<rparr>"
  by (simp add: encounter_def BASE_HP_def mount_def initial_def render_of_def
      scheduleNextAttack_def setTimeout_def next_delay_def calculateNextAttackDelay_def
      rageMultiplier_def randFloat_def healthPercent_def ATTACK_INTERVAL_MIN_def
      ATTACK_INTERVAL_MAX_def Let_def)

lemma registry_eval:
  "ATTACK_REGISTRY ''sweeping_laser'' = Some (Def SWEEPING_LASER)"
  "ATTACK_REGISTRY ''stomp_shockwave'' = Some (Def STOMP_SHOCKWAVE)"
  "ATTACK_REGISTRY ''constructor'' = Some (Inherited ''constructor'')"
  "ATTACK_REGISTRY ''__proto__'' = Some (Inherited ''__proto__'')"
  "ATTACK_REGISTRY ''tail_whip'' = None"
  by (simp_all add: ATTACK_REGISTRY_def registry_entries_def COMMON_ATTACKS_def
      UNIQUE_ATTACKS_def catalogue_defs Object_prototype_names_def)

lemma forceAttack_undefined: "ATTACK_REGISTRY attackId = None \<Longrightarrow> forceAttack r attackId s = s"
  by (simp add: forceAttack_def)

lemmas scenario_defs =
  render_of_def forceAttack_def clearTimeout_def startAttack_def setTimeout_def
  timer_fires_def elapse_def damageBoss_def handleWeakPointHit_def DAMAGE_FLASH_DURATION_def

subsection \<open>The model on whole cycles\<close>

text \<open>
  One full cycle of a forced seismic stomp (damage 40, telegraph 1800 ms, execute 1200 ms,
  recovery 1500 ms) on the fresh encounter: telegraph, execute at 1800 ms, the hit check at
  2160 ms with \<open>onPlayerHit(40)\<close>, recovery, a weak-point hit that leaves 950 health points,
  and at 4500 ms the return to idle, where the scheduler arms the next attack timer.
\<close>

lemma stomp_cycle:
  "phase (run encounter [ForceAttack (render_of encounter) ''stomp_shockwave'']) = TELEGRAPH
   \<and> phase (run encounter [ForceAttack (render_of encounter) ''stomp_shockwave'', TimerFires 0])
       = EXECUTING
   \<and> clock (run encounter [ForceAttack (render_of encounter) ''stomp_shockwave'', TimerFires 0])
       = 1800
   \<and> onPlayerHit_calls (run encounter
        [ForceAttack (render_of encounter) ''stomp_shockwave'', TimerFires 0, TimerFires 0])
       = [Some 40]
   \<and> clock (run encounter
        [ForceAttack (render_of encounter) ''stomp_shockwave'', TimerFires 0, TimerFires 0])
       = 2160
   \<and> phase (run encounter
        [ForceAttack (render_of encounter) ''stomp_shockwave'', TimerFires 0, TimerFires 0,
         TimerFires 0]) = RECOVERY
   \<and> currentHP (run encounter
        [ForceAttack (render_of encounter) ''stomp_shockwave'', TimerFires 0, TimerFires 0,
         TimerFires 0, WeakPointHit]) = 950"
  by (simp add: encounter_eval registry_eval scenario_defs Let_def STOMP_SHOCKWAVE_def)

lemma stomp_cycle_end:
  "phase (run encounter
        [ForceAttack (render_of encounter) ''stomp_shockwave'', TimerFires 0, TimerFires 0,
         TimerFires 0, WeakPointHit, TimerFires 0, TimerFires (1/2)]) = IDLE
   \<and> onPlayerHit_calls (run encounter
        [ForceAttack (render_of encounter) ''stomp_shockwave'', TimerFires 0, TimerFires 0,
         TimerFires 0, WeakPointHit, TimerFires 0, TimerFires (1/2)]) = [Some 40]
   \<and> map (\<lambda>t. (due t, callback t)) (timers (run encounter
        [ForceAttack (render_of encounter) ''stomp_shockwave'', TimerFires 0, TimerFires 0,
         TimerFires 0, WeakPointHit, TimerFires 0, TimerFires (1/2)]))
       = [(4500 + 3150, SelectAndStart (render_of encounter))]"
  by (simp add: encounter_eval registry_eval scenario_defs Let_def STOMP_SHOCKWAVE_def
      scheduleNextAttack_def next_delay_def calculateNextAttackDelay_def
      rageMultiplier_def randFloat_def healthPercent_def ATTACK_INTERVAL_MIN_def
      ATTACK_INTERVAL_MAX_def)

subsection \<open>The defeat callback\<close>

text \<open>
  C1, as amended. \<open>onBossDefeated\<close> is called by exactly those events that deal damage and
  leave the health at 0: a call of \<open>damageBoss\<close> (or a weak-point hit) whose amount brings
  \<open>currentHP - amount\<close> to 0 or below calls it once, and no other event calls it. There is no
  guard on a defeat already reported: on a boss at 0 health, every further call of
  \<open>damageBoss\<close> with an amount \<open>\<ge> 0\<close> calls it again, so \<open>n\<close> further calls make \<open>n\<close>
  further invocations.
\<close>

theorem defeat_callback_per_damage:
  "onBossDefeated_calls (step s ev)
     = (if is_damage ev \<and> currentHP s - damage_amount ev \<le> 0
        then Suc (onBossDefeated_calls s) else onBossDefeated_calls s)
   \<and> (currentHP s = 0 \<and> list_all (\<lambda>amount. 0 \<le> amount) amounts \<longrightarrow>
        onBossDefeated_calls (run s (map DamageBoss amounts))
          = onBossDefeated_calls s + length amounts)"
  using run_after_defeat [of s amounts] by (simp add: step_onBossDefeated)

text \<open>
  The amended C1 at a concrete encounter: the blow that brings the boss from 1000 to 0 calls
  the callback once, a blow that does not defeat it calls nothing, and three more blows on
  the defeated boss call it three more times.
\<close>

theorem defeat_callback_per_damage_witness:
  "currentHP defeated = 0 \<and> list_all (\<lambda>amount. 0 \<le> amount) [50, 0, 1000 :: real]
   \<and> onBossDefeated_calls (step encounter (DamageBoss 999)) = 0
   \<and> onBossDefeated_calls defeated = 1
   \<and> onBossDefeated_calls (run defeated (map DamageBoss [50, 0, 1000])) = 4"
  using defeat_callback_per_damage [of defeated "DamageBoss 0" "[50, 0, 1000]"]
    defeat_callback_per_damage [of encounter "DamageBoss 999" "[]"]
    defeat_callback_per_damage [of encounter "DamageBoss 1000" "[]"]
  by (simp add: defeated_def encounter_eval)

text \<open>
  C1 as stated fails: after the blow that defeats the boss, two weak-point hits in a row
  bring the number of calls of \<open>onBossDefeated\<close> to three.
\<close>

theorem defeat_callback_repeats:
  "currentHP (run encounter [DamageBoss 1000]) = 0
   \<and> onBossDefeated_calls (run encounter [DamageBoss 1000]) = 1
   \<and> onBossDefeated_calls (run encounter [DamageBoss 1000, WeakPointHit, WeakPointHit]) = 3"
  by (simp add: encounter_eval handleWeakPointHit_def)

subsection \<open>The delay between attacks\<close>

text \<open>
  C2, on the code. \<open>calculateNextAttackDelay\<close> multiplies the base delay, drawn from
  \<open>[ATTACK_INTERVAL_MIN, ATTACK_INTERVAL_MAX]\<close>, by \<open>1 - bossHealthPercent * 0.3\<close>. Its callers
  pass \<open>currentHP / maxHP\<close>, so at full health (1) the multiplier is 0.7 and at zero health
  (0) it is 1: with the draw at the middle of the interval the delay is 3150 ms at full
  health and 4500 ms, the midpoint, at zero health. The source's comment on the multiplier
  reads "Boss attacks faster as health decreases".
\<close>

theorem calculateNextAttackDelay_endpoints:
  "rageMultiplier 1 = 0.7 \<and> rageMultiplier 0 = 1
   \<and> calculateNextAttackDelay 1 u = 0.7 * randFloat ATTACK_INTERVAL_MIN ATTACK_INTERVAL_MAX u
   \<and> calculateNextAttackDelay 0 u = randFloat ATTACK_INTERVAL_MIN ATTACK_INTERVAL_MAX u
   \<and> calculateNextAttackDelay 1 (1/2) = 3150
   \<and> calculateNextAttackDelay 0 (1/2) = 4500"
  by (simp add: calculateNextAttackDelay_def rageMultiplier_def randFloat_def
      ATTACK_INTERVAL_MIN_def ATTACK_INTERVAL_MAX_def)

subsection \<open>Forcing an attack\<close>

text \<open>
  C3, on the code. \<open>forceAttack\<close> clears the timers held in \<open>attackTimerRef\<close> and
  \<open>phaseTimerRef\<close>; the handle of the hit check is never stored, so that timer stays pending.
  Here the sweeping laser (damage 25, hit check 540 ms into its execute phase) is forced and
  abandoned 200 ms into its execute phase by forcing the seismic stomp: at 1740 ms the
  laser's hit check runs and calls \<open>onPlayerHit(25)\<close>, while the machine is in the telegraph
  of the stomp.
\<close>

theorem hit_check_survives_forceAttack:
  "map callback (timers (run encounter
       [ForceAttack (render_of encounter) ''sweeping_laser'', TimerFires 0, Elapse 200,
        ForceAttack (render_of encounter) ''stomp_shockwave'']))
     = [HitCheck (render_of encounter) (Def SWEEPING_LASER),
        EnterExecuting (render_of encounter) (Def STOMP_SHOCKWAVE)]
   \<and> onPlayerHit_calls forced_during_executing = [Some 25]
   \<and> phase forced_during_executing = TELEGRAPH
   \<and> currentAttack forced_during_executing = Some (Def STOMP_SHOCKWAVE)
   \<and> clock forced_during_executing = 1740"
  by (simp add: forced_during_executing_def encounter_eval registry_eval scenario_defs Let_def
      SWEEPING_LASER_def STOMP_SHOCKWAVE_def)

subsection \<open>The hit check\<close>

text \<open>
  C4, on the code. The hit check is armed at \<open>executeDuration * 0.3\<close> after the entry into the
  execute phase and passes the attack's damage to \<open>onPlayerHit\<close>, but the flag it tests is the
  \<open>playerIsInvulnerable\<close> of the render in which the running \<open>startAttack\<close> was created. Here
  the seismic stomp (damage 40, telegraph 1800 ms, execute 1200 ms) is forced while the
  player is vulnerable, and the player becomes invulnerable during the telegraph: the hit
  check runs at 1800 + 360 ms, the flag is set at that moment, and \<open>onPlayerHit(40)\<close> is
  called all the same.
\<close>

theorem hit_check_reads_flag_of_its_render:
  "onPlayerHit_calls invulnerable_after_start = [Some 40]
   \<and> playerIsInvulnerable invulnerable_after_start
   \<and> phase invulnerable_after_start = EXECUTING
   \<and> clock invulnerable_after_start = 2160"
  by (simp add: invulnerable_after_start_def encounter_eval registry_eval scenario_defs Let_def
      STOMP_SHOCKWAVE_def)

subsection \<open>Scheduling after defeat\<close>

text \<open>
  The guard of the scheduler is on the \<open>currentHP\<close> of its render: with that value at 0 (or
  below) the call changes nothing, and with that value positive it arms an attack timer,
  whatever the health of the boss is at the time of the call.
\<close>

lemma scheduleNextAttack_guard:
  "r_currentHP r \<le> 0 \<Longrightarrow> scheduleNextAttack r u s = s"
  "0 < r_currentHP r \<Longrightarrow>
     map callback (timers (scheduleNextAttack r u s)) = map callback (timers s) @ [SelectAndStart r]"
  by (simp_all add: scheduleNextAttack_def setTimeout_def Let_def)

text \<open>
  C5, on the code. \<open>scheduleNextAttack\<close> tests \<open>currentHP <= 0\<close> before it arms a timer, but
  the \<open>currentHP\<close> it reads is the one of the render in which it was created, and the cycle
  started by the mount effect runs with the scheduler of the first render, where
  \<open>currentHP\<close> is \<open>maxHP\<close>. Here the boss of 1000 health points is brought to 0 while idle
  (the defeat callback fires). The attack timer armed at mount runs at 3150 ms and starts
  an attack; that cycle is played to its end; at its return to idle the scheduler arms a
  new attack timer, the health being 0; and that timer starts a fresh attack.
\<close>

theorem scheduler_reads_health_of_its_render:
  "currentHP defeated = 0 \<and> onBossDefeated_calls defeated = 1 \<and> phase defeated = IDLE
   \<and> phase (run defeated [TimerFires 0, TimerFires (1/2)]) = TELEGRAPH
   \<and> phase (run defeated
        [TimerFires 0, TimerFires (1/2), TimerFires 0, TimerFires 0, TimerFires 0,
         TimerFires (1/2)]) = IDLE
   \<and> currentHP (run defeated
        [TimerFires 0, TimerFires (1/2), TimerFires 0, TimerFires 0, TimerFires 0,
         TimerFires (1/2)]) = 0
   \<and> map callback (timers (run defeated
        [TimerFires 0, TimerFires (1/2), TimerFires 0, TimerFires 0, TimerFires 0,
         TimerFires (1/2)])) = [SelectAndStart (render_of encounter)]
   \<and> phase (run defeated
        [TimerFires 0, TimerFires (1/2), TimerFires 0, TimerFires 0, TimerFires 0,
         TimerFires (1/2), TimerFires (1/2)]) = TELEGRAPH
   \<and> currentHP (run defeated
        [TimerFires 0, TimerFires (1/2), TimerFires 0, TimerFires 0, TimerFires 0,
         TimerFires (1/2), TimerFires (1/2)]) = 0"
  by (simp add: defeated_def encounter_eval scenario_defs Let_def
      getAttacksForBoss_def UNIQUE_ATTACKS_def COMMON_ATTACKS_def catalogue_defs
      attack_weights_def below_half_def healthPercent_def selectRandomAttack_def
      draw_def totalWeight_def
      scheduleNextAttack_def next_delay_def calculateNextAttackDelay_def
      rageMultiplier_def randFloat_def ATTACK_INTERVAL_MIN_def ATTACK_INTERVAL_MAX_def)

subsection \<open>Damage and the health bounds\<close>

text \<open>
  C6. \<open>damageBoss(amount)\<close> sets the health to \<open>max(0, health - amount)\<close>, for every
  health and every amount; the new health is never below 0; and for an amount \<open>\<ge> 0\<close> the
  health does not increase. (The last part is about a health that is not negative, as the
  health of every state of an encounter is, by \<open>run_nonneg\<close>.)
\<close>

theorem damageBoss_clamps:
  "currentHP (damageBoss amount s) = max 0 (currentHP s - amount)
   \<and> 0 \<le> currentHP (damageBoss amount s)
   \<and> (0 \<le> amount \<and> 0 \<le> currentHP s \<longrightarrow> currentHP (damageBoss amount s) \<le> currentHP s)"
  by simp

text \<open>C6 at a weak-point hit on the fresh boss, and at an overkill.\<close>

theorem damageBoss_clamps_witness:
  "(0::real) \<le> 50 \<and> 0 \<le> currentHP encounter
   \<and> currentHP (damageBoss 50 encounter) = 950
   \<and> currentHP (damageBoss 50 encounter) \<le> currentHP encounter
   \<and> currentHP (damageBoss 5000 encounter) = 0"
  using damageBoss_clamps [of 50 encounter] damageBoss_clamps [of 5000 encounter]
  by (simp add: encounter_eval)

text \<open>
  C7, as amended. In an encounter mounted with \<open>maxHP \<ge> 0\<close>, after any sequence of events
  (damage of any amount, weak-point hits, forced attacks, timers running, time passing,
  frames, re-renders) the health is not negative and \<open>maxHP\<close> is the value given at the
  start; and when every damage amount in the sequence is \<open>\<ge> 0\<close>, the health is at most
  \<open>maxHP\<close>. (\<open>damageBoss\<close> has no upper clamp: a negative amount adds to the health.)
\<close>

theorem health_invariant:
  "0 \<le> mhp \<Longrightarrow>
   0 \<le> currentHP (run (mount level mhp i u) evs)
   \<and> maxHP (run (mount level mhp i u) evs) = mhp
   \<and> (list_all (\<lambda>ev. 0 \<le> damage_amount ev) evs
        \<longrightarrow> currentHP (run (mount level mhp i u) evs) \<le> mhp)"
  using run_nonneg [of "mount level mhp i u" evs] run_le_max [of "mount level mhp i u" evs]
  by simp

text \<open>
  The amended C7 on an encounter with a blow of 300, a weak-point hit, a forced attack, a
  timer and an overkill of 5000.
\<close>

theorem health_invariant_witness:
  "(0::real) \<le> 1000
   \<and> list_all (\<lambda>ev. 0 \<le> damage_amount ev)
        [DamageBoss 300, WeakPointHit, ForceAttack (render_of encounter) ''cryo_blast'',
         TimerFires 0, DamageBoss 5000]
   \<and> currentHP (run (mount 1 1000 False (1/2)) [DamageBoss 300, WeakPointHit]) = 650
   \<and> currentHP (run (mount 1 1000 False (1/2))
        [DamageBoss 300, WeakPointHit, ForceAttack (render_of encounter) ''cryo_blast'',
         TimerFires 0, DamageBoss 5000]) \<le> 1000
   \<and> 0 \<le> currentHP (run (mount 1 1000 False (1/2))
        [DamageBoss 300, WeakPointHit, ForceAttack (render_of encounter) ''cryo_blast'',
         TimerFires 0, DamageBoss 5000])"
  using health_invariant [of 1000 1 False "1/2"
      "[DamageBoss 300, WeakPointHit, ForceAttack (render_of encounter) ''cryo_blast'',
        TimerFires 0, DamageBoss 5000]"]
  by (simp add: step_currentHP handleWeakPointHit_def)

text \<open>
  C7 as stated fails for a negative amount: \<open>damageBoss(-1)\<close> on the fresh boss of 1000
  health points leaves it at 1001, above \<open>maxHP\<close>.
\<close>

theorem health_exceeds_maxHP:
  "currentHP (run encounter [DamageBoss (- 1)]) = 1001
   \<and> maxHP (run encounter [DamageBoss (- 1)]) = 1000
   \<and> \<not> currentHP (run encounter [DamageBoss (- 1)]) \<le> maxHP (run encounter [DamageBoss (- 1)])"
  by (simp add: encounter_eval)

subsection \<open>Weighted selection\<close>

text \<open>
  On the draw \<open>3002399751580331 / 2^52\<close> with three weights of 1, the product with the total
  weight 3 is \<open>2 + 2^-52\<close>, which rounds to 2: the walk returns the second attack.
\<close>

lemma selectRandomAttack_rounds:
  "draw [1, 1, 1] (3002399751580331 / 2 ^ 52) = Num 2
   \<and> selectRandomAttack [SWEEPING_LASER, MISSILE_BARRAGE, STOMP_SHOCKWAVE] (Some [1, 1, 1])
        (3002399751580331 / 2 ^ 52) = Some MISSILE_BARRAGE"
  by (simp add: selectRandomAttack_def draw_def totalWeight_def fl64_eval)




subsection \<open>The attacks of a boss\<close>

text \<open>
  C9. For every level, \<open>getAttacksForBoss(level).all\<close> is the list of the common attacks
  followed by the unique attacks registered for that level, of which there is exactly one
  when one is registered and none otherwise: it contains every common attack, the number of
  its attacks of type \<open>unique\<close> is 1 or 0 accordingly, and \<open>unique\<close> is absent exactly when
  none is registered. The function is total: a level without a unique attack is no error.
\<close>

theorem getAttacksForBoss_all:
  "set COMMON_ATTACKS \<subseteq> set (all_of (getAttacksForBoss level))
   \<and> all_of (getAttacksForBoss level)
       = COMMON_ATTACKS @ filter (\<lambda>u. bossLevel u = Some level) UNIQUE_ATTACKS
   \<and> length (filter (\<lambda>a. attack_type a = ''unique'') (all_of (getAttacksForBoss level)))
       = (if \<exists>u \<in> set UNIQUE_ATTACKS. bossLevel u = Some level then 1 else 0)
   \<and> (unique_of (getAttacksForBoss level) = None)
       = (\<not> (\<exists>u \<in> set UNIQUE_ATTACKS. bossLevel u = Some level))"
  by (auto simp add: getAttacksForBoss_def UNIQUE_ATTACKS_def COMMON_ATTACKS_def Let_def)

text \<open>C9 at level 1, which has the seismic stomp, and at level 8, which has no unique attack.\<close>

theorem getAttacksForBoss_all_witness:
  "all_of (getAttacksForBoss 1) = [SWEEPING_LASER, MISSILE_BARRAGE, STOMP_SHOCKWAVE]
   \<and> all_of (getAttacksForBoss 8) = [SWEEPING_LASER, MISSILE_BARRAGE]
   \<and> unique_of (getAttacksForBoss 8) = None"
  using getAttacksForBoss_all [of 1] getAttacksForBoss_all [of 8]
  by (simp add: UNIQUE_ATTACKS_def COMMON_ATTACKS_def)

subsection \<open>Forcing a name that is no attack\<close>

text \<open>
  C10, on the code. For a name whose lookup in the registry yields \<open>undefined\<close>,
  \<open>forceAttack\<close> returns without touching anything (\<open>forceAttack_undefined\<close>). A name that is
  no attack id but a member of \<open>Object.prototype\<close> is found through the prototype chain and
  passes the guard \<open>if (attack)\<close>: on the idle encounter, \<open>forceAttack('constructor')\<close> cancels
  the pending attack timer, enters the telegraph phase and arms a phase timer for a value
  that is no attack definition.
\<close>

theorem forceAttack_inherited_name:
  "ATTACK_REGISTRY ''constructor'' = Some (Inherited ''constructor'')
   \<and> map_of registry_entries ''constructor'' = None
   \<and> phase encounter = IDLE
   \<and> map callback (timers encounter) = [SelectAndStart (render_of encounter)]
   \<and> forceAttack (render_of encounter) ''constructor'' encounter \<noteq> encounter
   \<and> phase (forceAttack (render_of encounter) ''constructor'' encounter) = TELEGRAPH
   \<and> map callback (timers (forceAttack (render_of encounter) ''constructor'' encounter))
       = [EnterExecuting (render_of encounter) (Inherited ''constructor'')]
   \<and> phase (forceAttack (render_of encounter) ''__proto__'' encounter) = TELEGRAPH"
proof -
  have "phase (forceAttack (render_of encounter) ''constructor'' encounter) \<noteq> phase encounter"
    by (simp add: encounter_eval registry_eval scenario_defs throwing_names_def Let_def)
  then have "forceAttack (render_of encounter) ''constructor'' encounter \<noteq> encounter"
    by auto
  moreover have "map_of registry_entries ''constructor'' = None"
    by (simp add: registry_entries_def COMMON_ATTACKS_def UNIQUE_ATTACKS_def catalogue_defs)
  ultimately show ?thesis
    by (simp add: encounter_eval registry_eval scenario_defs throwing_names_def Let_def)
qed

text \<open>
  For an inherited name whose function throws as an updater the call is no no-op either:
  \<open>forceAttack('valueOf')\<close> on the idle encounter cancels the pending attack timer, and the
  render that follows throws, so the component is unmounted, with no timer left.
\<close>

lemma forceAttack_throwing_name:
  "ATTACK_REGISTRY ''valueOf'' = Some (Inherited ''valueOf'')
   \<and> unmounted (forceAttack (render_of encounter) ''valueOf'' encounter)
   \<and> timers (forceAttack (render_of encounter) ''valueOf'' encounter) = []
   \<and> phase (forceAttack (render_of encounter) ''valueOf'' encounter) = IDLE"
  by (simp add: encounter_eval ATTACK_REGISTRY_def registry_entries_def COMMON_ATTACKS_def
      UNIQUE_ATTACKS_def catalogue_defs Object_prototype_names_def scenario_defs unmount_def
      throwing_names_def Let_def)

end
